theory Spec2Isabelle
  imports Complex_Main
begin

section \<open>Numeric values\<close>

text \<open>
  The engine computes on numpy \<open>float64\<close> scalars and arrays. A value is modelled as an
  exact real or one of the three non-finite results of IEEE arithmetic; rounding and
  overflow are abstracted away, division by zero and the propagation of \<open>inf\<close> and
  \<open>nan\<close> are not. Signed zeros are identified: every zero divisor of this program is
  a sum of the word-count column or \<open>len(arr) - 1\<close>, which is \<open>+0.0\<close>.
\<close>

datatype npfloat = Fin real | PInf | NInf | NaN

fun np_neg :: "npfloat \<Rightarrow> npfloat" where
  "np_neg (Fin a) = Fin (- a)"
| "np_neg PInf = NInf"
| "np_neg NInf = PInf"
| "np_neg NaN = NaN"

fun np_add :: "npfloat \<Rightarrow> npfloat \<Rightarrow> npfloat" where
  "np_add (Fin a) (Fin b) = Fin (a + b)"
| "np_add (Fin a) PInf = PInf"
| "np_add (Fin a) NInf = NInf"
| "np_add PInf (Fin b) = PInf"
| "np_add PInf PInf = PInf"
| "np_add NInf (Fin b) = NInf"
| "np_add NInf NInf = NInf"
| "np_add PInf NInf = NaN"
| "np_add NInf PInf = NaN"
| "np_add NaN y = NaN"
| "np_add x NaN = NaN"

definition np_sub :: "npfloat \<Rightarrow> npfloat \<Rightarrow> npfloat" where
  "np_sub x y = np_add x (np_neg y)"

fun np_mul :: "npfloat \<Rightarrow> npfloat \<Rightarrow> npfloat" where
  "np_mul (Fin a) (Fin b) = Fin (a * b)"
| "np_mul (Fin a) PInf = (if a = 0 then NaN else if 0 < a then PInf else NInf)"
| "np_mul (Fin a) NInf = (if a = 0 then NaN else if 0 < a then NInf else PInf)"
| "np_mul PInf (Fin b) = (if b = 0 then NaN else if 0 < b then PInf else NInf)"
| "np_mul NInf (Fin b) = (if b = 0 then NaN else if 0 < b then NInf else PInf)"
| "np_mul PInf PInf = PInf"
| "np_mul NInf NInf = PInf"
| "np_mul PInf NInf = NInf"
| "np_mul NInf PInf = NInf"
| "np_mul NaN y = NaN"
| "np_mul x NaN = NaN"

text \<open>
  True division of a float by a finite divisor. Python's own \<open>/\<close> raises
  \<open>ZeroDivisionError\<close> on a zero divisor; numpy scalars do not: they return \<open>nan\<close>
  or a signed infinity (and emit a warning, which is not an exception).
\<close>

fun np_true_divide :: "npfloat \<Rightarrow> real \<Rightarrow> npfloat" where
  "np_true_divide (Fin a) d =
     (if d = 0 then (if a = 0 then NaN else if 0 < a then PInf else NInf)
      else Fin (a / d))"
| "np_true_divide PInf d = (if d < 0 then NInf else PInf)"
| "np_true_divide NInf d = (if d < 0 then PInf else NInf)"
| "np_true_divide NaN d = NaN"

fun np_sqrt :: "npfloat \<Rightarrow> npfloat" where
  "np_sqrt (Fin a) = (if a < 0 then NaN else Fin (sqrt a))"
| "np_sqrt PInf = PInf"
| "np_sqrt NInf = NaN"
| "np_sqrt NaN = NaN"

text \<open>Comparisons: every comparison with \<open>nan\<close> is false.\<close>

fun np_less :: "npfloat \<Rightarrow> npfloat \<Rightarrow> bool" where
  "np_less (Fin a) (Fin b) = (a < b)"
| "np_less (Fin a) PInf = True"
| "np_less NInf (Fin b) = True"
| "np_less NInf PInf = True"
| "np_less x y = False"

fun np_less_equal :: "npfloat \<Rightarrow> npfloat \<Rightarrow> bool" where
  "np_less_equal (Fin a) (Fin b) = (a \<le> b)"
| "np_less_equal (Fin a) PInf = True"
| "np_less_equal NInf (Fin b) = True"
| "np_less_equal NInf PInf = True"
| "np_less_equal PInf PInf = True"
| "np_less_equal NInf NInf = True"
| "np_less_equal x y = False"

text \<open>\<open>np.sum\<close> and \<open>np.mean\<close> of a one-dimensional float array.\<close>

definition np_sum :: "npfloat list \<Rightarrow> npfloat" where
  "np_sum xs = foldr np_add xs (Fin 0)"

definition np_mean :: "npfloat list \<Rightarrow> npfloat" where
  "np_mean xs = np_true_divide (np_sum xs) (real (length xs))"

section \<open>Records and the statistic\<close>

text \<open>
  \<open>process_text_file\<close> stores each input line as the tuple
  \<open>(edit_wer_a, wer_b, num_words)\<close> and turns every block into a two-dimensional array,
  so the columns 0, 1 and 2 of a row are model A's raw edit count, model B's capped
  word error rate and the reference word count.
\<close>

record wer_row =
  errors_a :: real
  wer_b :: real
  num_words :: real

text \<open>
  \<open>wer_change\<close>:
  \<^verbatim>\<open>return np.sum(data[:, 1] - data[:, 0]) / np.sum(data[:, 2])\<close>
  The columns are subtracted element by element, with no factor in between; neither sum
  can fail, and the quotient is a numpy division.
\<close>

definition wer_change :: "wer_row list \<Rightarrow> npfloat" where
  "wer_change data =
     np_true_divide (Fin (sum_list (map (\<lambda>r. wer_b r - errors_a r) data)))
                    (sum_list (map num_words data))"

text \<open>
  The statistic in the words of the specification, for comparison: model B's rate is
  weighted by the word count of its record before the edit counts are subtracted.
\<close>

definition wer_change_weighted :: "wer_row list \<Rightarrow> real" where
  "wer_change_weighted data =
     (sum_list (map (\<lambda>r. wer_b r * num_words r) data) - sum_list (map errors_a data))
       / sum_list (map num_words data)"

text \<open>
  \<open>standard_error\<close>:
  \<^verbatim>\<open>
  std_dev = np.sum((wer_change - wer_change_mean)**2)/(len(wer_change)-1)
  return np.sqrt(std_dev)
  \<close>
\<close>

definition standard_error :: "npfloat list \<Rightarrow> npfloat \<Rightarrow> npfloat" where
  "standard_error arr wer_change_mean =
     (let std_dev = np_true_divide
                      (np_sum (map (\<lambda>x. np_mul (np_sub x wer_change_mean)
                                                 (np_sub x wer_change_mean)) arr))
                      (real_of_int (int (length arr) - 1))
      in np_sqrt std_dev)"

section \<open>Errors and the random source\<close>

datatype error =
  AssertionError | ValueError | TypeError | IndexError | AxisError | UnboundLocalError

text \<open>
  The code draws from numpy's global generator. Its state is threaded explicitly: an
  arbitrary stream \<open>gen\<close> of raw draws and the number \<open>drawn\<close> of draws consumed so
  far. A computation takes the state and returns its outcome with the state it leaves
  behind, also when it raises.
\<close>

record rng =
  gen :: "nat \<Rightarrow> nat"
  drawn :: nat

definition and_then ::
  "(rng \<Rightarrow> (error + 'a) \<times> rng) \<Rightarrow> ('a \<Rightarrow> rng \<Rightarrow> (error + 'b) \<times> rng)
     \<Rightarrow> rng \<Rightarrow> (error + 'b) \<times> rng" where
  "and_then m f r = (case m r of (Inl e, r') \<Rightarrow> (Inl e, r') | (Inr x, r') \<Rightarrow> f x r')"

text \<open>
  \<open>np.random.randint(0, high, size=count)\<close>: \<open>count\<close> indices in \<open>[0, high)\<close>, drawn
  one after the other; \<open>ValueError\<close> when the range is empty or the size negative.
\<close>

definition np_random_randint :: "nat \<Rightarrow> int \<Rightarrow> rng \<Rightarrow> (error + nat list) \<times> rng" where
  "np_random_randint high count r =
     (if high = 0 \<or> count < 0 then (Inl ValueError, r)
      else (Inr (map (\<lambda>i. gen r (drawn r + i) mod high) [0..<nat count]),
            r\<lparr>drawn := drawn r + nat count\<rparr>))"

text \<open>
  \<open>random_sample\<close>:
  \<^verbatim>\<open>
  random_index = np.random.randint(0, data.shape[0], size=num_samples)
  return data[random_index]
  \<close>
\<close>

definition random_sample ::
  "wer_row list \<Rightarrow> int \<Rightarrow> rng \<Rightarrow> (error + wer_row list) \<times> rng" where
  "random_sample data num_samples =
     and_then (np_random_randint (length data) num_samples)
       (\<lambda>random_index r. (Inr (map (\<lambda>i. data ! i) random_index), r))"

section \<open>The engine and its bootstrap drivers\<close>

text \<open>
  The data set is a dictionary from block name to the array of the block's rows, in
  insertion order. The constructor stores its arguments as they come; reading the file
  is outside the engine, so the parsed data is an argument here.
\<close>

type_synonym dataset = "(string \<times> wer_row list) list"

record StatisticalSignificance =
  total_batch :: int
  data_wer :: dataset
  use_gaussian_appr :: bool

definition StatisticalSignificance_init ::
  "dataset \<Rightarrow> int \<Rightarrow> bool \<Rightarrow> StatisticalSignificance" where
  "StatisticalSignificance_init parsed batches gaussian =
     \<lparr>total_batch = batches, data_wer = parsed, use_gaussian_appr = gaussian\<rparr>"

definition z_scores :: "real \<Rightarrow> real option" where
  "z_scores = [0.90 \<mapsto> 1.645, 0.95 \<mapsto> 1.960, 0.99 \<mapsto> 2.576]"

text \<open>
  \<open>bootstap_sampling\<close>: the body of \<open>for _ in range(self.total_batch)\<close>, run \<open>n\<close>
  times; each round samples, computes the statistic and appends it.
\<close>

primrec bootstap_sampling_rounds ::
  "nat \<Rightarrow> wer_row list \<Rightarrow> int \<Rightarrow> rng \<Rightarrow> (error + npfloat list) \<times> rng" where
  "bootstap_sampling_rounds 0 data num_samples_per_batch = (\<lambda>r. (Inr [], r))"
| "bootstap_sampling_rounds (Suc n) data num_samples_per_batch =
     and_then (random_sample data num_samples_per_batch)
       (\<lambda>sample_data.
          and_then (bootstap_sampling_rounds n data num_samples_per_batch)
            (\<lambda>rest r. (Inr (wer_change sample_data # rest), r)))"

definition bootstap_sampling ::
  "StatisticalSignificance \<Rightarrow> wer_row list \<Rightarrow> int \<Rightarrow> rng \<Rightarrow> (error + npfloat list) \<times> rng" where
  "bootstap_sampling self data num_samples_per_batch =
     bootstap_sampling_rounds (nat (total_batch self)) data num_samples_per_batch"

text \<open>
  \<open>bootstap_sampling_block\<close>: one round first samples every block in the dictionary's
  order (\<open>sample_blocks\<close>), stacks the samples (\<open>np.vstack\<close>, which refuses an empty
  list) and computes the statistic of the stack.
\<close>

primrec sample_blocks ::
  "dataset \<Rightarrow> int \<Rightarrow> rng \<Rightarrow> (error + wer_row list list) \<times> rng" where
  "sample_blocks [] num_samples_per_block = (\<lambda>r. (Inr [], r))"
| "sample_blocks (block # blocks) num_samples_per_block =
     and_then (random_sample (snd block) num_samples_per_block)
       (\<lambda>block_sample_data.
          and_then (sample_blocks blocks num_samples_per_block)
            (\<lambda>rest r. (Inr (block_sample_data # rest), r)))"

definition np_vstack :: "wer_row list list \<Rightarrow> error + wer_row list" where
  "np_vstack arrays = (case arrays of [] \<Rightarrow> Inl ValueError | _ # _ \<Rightarrow> Inr (concat arrays))"

definition block_resample :: "dataset \<Rightarrow> int \<Rightarrow> rng \<Rightarrow> (error + wer_row list) \<times> rng" where
  "block_resample data num_samples_per_block =
     and_then (sample_blocks data num_samples_per_block)
       (\<lambda>sample_data r. (np_vstack sample_data, r))"

primrec bootstap_sampling_block_rounds ::
  "nat \<Rightarrow> dataset \<Rightarrow> int \<Rightarrow> rng \<Rightarrow> (error + npfloat list) \<times> rng" where
  "bootstap_sampling_block_rounds 0 data num_samples_per_block = (\<lambda>r. (Inr [], r))"
| "bootstap_sampling_block_rounds (Suc n) data num_samples_per_block =
     and_then (block_resample data num_samples_per_block)
       (\<lambda>sample_data.
          and_then (bootstap_sampling_block_rounds n data num_samples_per_block)
            (\<lambda>rest r. (Inr (wer_change sample_data # rest), r)))"

definition bootstap_sampling_block ::
  "StatisticalSignificance \<Rightarrow> dataset \<Rightarrow> int \<Rightarrow> rng \<Rightarrow> (error + npfloat list) \<times> rng" where
  "bootstap_sampling_block self data num_samples_per_block =
     bootstap_sampling_block_rounds (nat (total_batch self)) data num_samples_per_block"

section \<open>Percentiles\<close>

text \<open>
  \<open>np.percentile(a, q, axis)\<close> on a one-dimensional array, with its three positional
  parameters. The percentages are validated first, then the axis is normalised: an axis
  that is not an integer is a \<open>TypeError\<close>, an integer axis other than \<open>0\<close> or \<open>-1\<close>
  is out of bounds for one dimension. Only then are the values computed: the array is
  sorted (\<open>nan\<close> last), a \<open>nan\<close> in it makes every percentile \<open>nan\<close>, and otherwise
  the percentile interpolates linearly between the two neighbours of the position
  \<open>q / 100 * (n - 1)\<close>.
\<close>

datatype axis_arg = AxisNone | AxisInt int | AxisFloat real

fun np_sort_le :: "npfloat \<Rightarrow> npfloat \<Rightarrow> bool" where
  "np_sort_le x NaN = True"
| "np_sort_le NaN y = False"
| "np_sort_le x y = np_less_equal x y"

fun np_insort :: "npfloat \<Rightarrow> npfloat list \<Rightarrow> npfloat list" where
  "np_insort x [] = [x]"
| "np_insort x (y # ys) = (if np_sort_le x y then x # y # ys else y # np_insort x ys)"

definition np_sort :: "npfloat list \<Rightarrow> npfloat list" where
  "np_sort xs = foldr np_insort xs []"

definition percentile_linear :: "npfloat list \<Rightarrow> real \<Rightarrow> npfloat" where
  "percentile_linear a p =
     (let srt = np_sort a;
          n = length srt;
          virtual_index = p / 100 * real (n - 1);
          previous_index = nat \<lfloor>virtual_index\<rfloor>;
          next_index = min (previous_index + 1) (n - 1);
          gamma = virtual_index - real previous_index
      in if last srt = NaN then NaN
         else np_add (srt ! previous_index)
                (np_mul (np_sub (srt ! next_index) (srt ! previous_index)) (Fin gamma)))"

definition np_percentile ::
  "npfloat list \<Rightarrow> real list \<Rightarrow> axis_arg \<Rightarrow> error + npfloat list" where
  "np_percentile a q axis =
     (if list_ex (\<lambda>p. p < 0 \<or> 100 < p) q then Inl ValueError
      else case axis of
             AxisFloat x \<Rightarrow> Inl TypeError
           | AxisInt i \<Rightarrow>
               (if i = 0 \<or> i = - 1
                then (if a = [] then Inl IndexError else Inr (map (percentile_linear a) q))
                else Inl AxisError)
           | AxisNone \<Rightarrow>
               (if a = [] then Inl IndexError else Inr (map (percentile_linear a) q)))"

text \<open>Tuple unpacking \<open>ci_low, ci_high = ...\<close>: the right-hand side must hold two items.\<close>

definition unpack_pair :: "npfloat list \<Rightarrow> error + npfloat \<times> npfloat" where
  "unpack_pair xs = (case xs of [x, y] \<Rightarrow> Inr (x, y) | _ \<Rightarrow> Inl ValueError)"

section \<open>The result and the entry point\<close>

record WER_DiffCI =
  wer_diff_bootstrap :: npfloat
  ci_low :: npfloat
  ci_high :: npfloat
  std_err :: npfloat
  confidence_level :: real
  wer_diff_absolute :: "npfloat option"

text \<open>
  The constructor's signature is
  \<^verbatim>\<open>__init__(self, wer_diff_bootstrap, ci_high, ci_low, std_err, confidence_level, wer_diff_absolute=None)\<close>:
  its second parameter is \<open>ci_high\<close> and its third \<open>ci_low\<close>.
\<close>

definition WER_DiffCI_init ::
  "npfloat \<Rightarrow> npfloat \<Rightarrow> npfloat \<Rightarrow> npfloat \<Rightarrow> real \<Rightarrow> npfloat option \<Rightarrow> WER_DiffCI" where
  "WER_DiffCI_init mean_arg high_arg low_arg err_arg level_arg absolute_arg =
     \<lparr>wer_diff_bootstrap = mean_arg, ci_low = low_arg, ci_high = high_arg,
      std_err = err_arg, confidence_level = level_arg, wer_diff_absolute = absolute_arg\<rparr>"

text \<open>\<open>is_significant\<close>: \<^verbatim>\<open>return (self.ci_low < 0) and (self.ci_high < 0)\<close>\<close>

definition is_significant :: "WER_DiffCI \<Rightarrow> bool" where
  "is_significant self = (np_less (ci_low self) (Fin 0) \<and> np_less (ci_high self) (Fin 0))"

text \<open>
  Lines 114 to 116 of \<open>compute_significance\<close>: in Gaussian mode the level must be a key
  of the table, and \<open>z_score\<close> is bound; otherwise \<open>z_score\<close> stays unbound.
\<close>

definition lookup_z_score :: "StatisticalSignificance \<Rightarrow> real \<Rightarrow> error + real option" where
  "lookup_z_score self level =
     (if use_gaussian_appr self
      then (case z_scores level of None \<Rightarrow> Inl AssertionError | Some z \<Rightarrow> Inr (Some z))
      else Inr None)"

text \<open>
  Lines 118 to 126: the sampling distribution and the absolute difference. In pooled
  mode the blocks are stacked when there are several, and the only block is taken as
  it is otherwise (\<open>data_expanded[0]\<close>, an \<open>IndexError\<close> on an empty dictionary).
\<close>

definition expand_data :: "dataset \<Rightarrow> error + wer_row list" where
  "expand_data data =
     (case data of
        [] \<Rightarrow> Inl IndexError
      | [block] \<Rightarrow> Inr (snd block)
      | _ # _ # _ \<Rightarrow> Inr (concat (map snd data)))"

definition run_bootstrap ::
  "StatisticalSignificance \<Rightarrow> int \<Rightarrow> bool \<Rightarrow> rng
     \<Rightarrow> (error + npfloat list \<times> npfloat option) \<times> rng" where
  "run_bootstrap self num_samples use_blockwise_bootstrap r =
     (if use_blockwise_bootstrap
      then and_then (bootstap_sampling_block self (data_wer self) num_samples)
             (\<lambda>change_in_wer_arr r'. (Inr (change_in_wer_arr, None), r')) r
      else case expand_data (data_wer self) of
             Inl e \<Rightarrow> (Inl e, r)
           | Inr data_expanded \<Rightarrow>
               and_then (bootstap_sampling self data_expanded num_samples)
                 (\<lambda>change_in_wer_arr r'.
                    (Inr (change_in_wer_arr, Some (wer_change data_expanded)), r')) r)"

text \<open>
  Lines 134 to 138: the pair of local variables \<open>(ci_low, ci_high)\<close>.
  \<^verbatim>\<open>
  if self.use_gaussian_appr:
      ci_low, ci_high = wer_diff_bootstrap + z_score*std_err_bootstrap, wer_diff_bootstrap - z_score*std_err_bootstrap
  else:
      interval = (1.0 - confidence_level)/2
      ci_low, ci_high = np.percentile(change_in_wer_arr, [(1.0-interval)*100], interval*100)
  \<close>
  In the second branch the list of percentages closes after its first item, so
  \<open>interval*100\<close>, a float, is the third positional argument of \<open>np.percentile\<close>: its axis.
\<close>

definition confidence_interval ::
  "StatisticalSignificance \<Rightarrow> real option \<Rightarrow> real \<Rightarrow> npfloat list \<Rightarrow> npfloat \<Rightarrow> npfloat
     \<Rightarrow> error + npfloat \<times> npfloat" where
  "confidence_interval self z_score level change_in_wer_arr mean_bootstrap std_err_bootstrap =
     (if use_gaussian_appr self
      then (case z_score of
              None \<Rightarrow> Inl UnboundLocalError
            | Some z \<Rightarrow>
                Inr (np_add mean_bootstrap (np_mul (Fin z) std_err_bootstrap),
                     np_sub mean_bootstrap (np_mul (Fin z) std_err_bootstrap)))
      else (let interval = (1 - level) / 2
            in case np_percentile change_in_wer_arr [(1 - interval) * 100]
                      (AxisFloat (interval * 100)) of
                 Inl e \<Rightarrow> Inl e
               | Inr percentiles \<Rightarrow> unpack_pair percentiles))"

text \<open>
  \<open>compute_significance\<close>. The three assertions come first; the sample size of the
  chosen mode is the one that must be present. The last line passes the local
  \<open>ci_low\<close> and \<open>ci_high\<close> to the constructor by position:
  \<^verbatim>\<open>return WER_DiffCI(wer_diff_bootstrap, ci_low, ci_high, std_err_bootstrap, confidence_level, absolute_wer_diff)\<close>
\<close>

definition compute_significance ::
  "StatisticalSignificance \<Rightarrow> int option \<Rightarrow> int option \<Rightarrow> real \<Rightarrow> bool \<Rightarrow> rng
     \<Rightarrow> (error + WER_DiffCI) \<times> rng" where
  "compute_significance self num_samples_per_batch num_samples_per_block level
       use_blockwise_bootstrap r =
     (if 1 \<le> level then (Inl AssertionError, r)
      else case (if use_blockwise_bootstrap then num_samples_per_block
                 else num_samples_per_batch) of
        None \<Rightarrow> (Inl AssertionError, r)
      | Some num_samples \<Rightarrow>
         (case lookup_z_score self level of
            Inl e \<Rightarrow> (Inl e, r)
          | Inr z_score \<Rightarrow>
              and_then (run_bootstrap self num_samples use_blockwise_bootstrap)
                (\<lambda>(change_in_wer_arr, absolute_wer_diff) r'.
                   (let mean_bootstrap = np_mean change_in_wer_arr;
                        std_err_bootstrap = standard_error change_in_wer_arr mean_bootstrap
                    in case confidence_interval self z_score level change_in_wer_arr
                              mean_bootstrap std_err_bootstrap of
                         Inl e \<Rightarrow> (Inl e, r')
                       | Inr (low_local, high_local) \<Rightarrow>
                           (Inr (WER_DiffCI_init mean_bootstrap low_local high_local
                                   std_err_bootstrap level absolute_wer_diff), r'))) r))"

section \<open>Example data\<close>

text \<open>
  The data set of the specification's end-to-end scenario: block \<open>default\<close> with the
  rows \<open>(2, 0.1, 10)\<close> and \<open>(0, 0.0, 10)\<close>, block \<open>b1\<close> with the row \<open>(3, 0.4, 10)\<close>;
  and a random source whose \<open>i\<close>-th raw draw is \<open>i\<close>.
\<close>

definition example_data :: dataset where
  "example_data =
     [(''default'', [\<lparr>errors_a = 2, wer_b = 0.1, num_words = 10\<rparr>,
                    \<lparr>errors_a = 0, wer_b = 0, num_words = 10\<rparr>]),
      (''b1'', [\<lparr>errors_a = 3, wer_b = 0.4, num_words = 10\<rparr>])]"

definition example_rng :: rng where
  "example_rng = \<lparr>gen = (\<lambda>i. i), drawn = 0\<rparr>"

section \<open>The statistic\<close>

lemma wer_change_finite:
  "sum_list (map num_words data) \<noteq> 0 \<Longrightarrow>
   wer_change data =
     Fin ((sum_list (map wer_b data) - sum_list (map errors_a data))
            / sum_list (map num_words data))"
  by (simp add: wer_change_def sum_list_subtractf)

text \<open>
  C1. The specification's statistic weights model B's rate by the word count of its
  record, so that the record \<open>(errors_a = 5, wer_b = 0.5, num_words = 10)\<close> gives
  \<open>(0.5 * 10 - 5) / 10 = 0\<close>. The code subtracts the raw edit count of model A from
  the unweighted rate of model B: on this record it returns \<open>(0.5 - 5) / 10 = -0.45\<close>,
  while the weighted form is \<open>0\<close>.
\<close>

theorem wer_change_single_record:
  "wer_change [\<lparr>errors_a = 5, wer_b = 0.5, num_words = 10\<rparr>] = Fin (- 0.45)
   \<and> wer_change_weighted [\<lparr>errors_a = 5, wer_b = 0.5, num_words = 10\<rparr>] = 0"
  by (simp add: wer_change_def wer_change_weighted_def)




section \<open>The significance predicate\<close>

text \<open>
  C4. \<open>is_significant\<close> holds exactly when both stored bounds are strictly negative
  (\<open>-inf\<close> or a negative number); an interval with both bounds strictly positive is
  not significant.
\<close>

theorem is_significant_only_both_negative:
  "(is_significant res \<longleftrightarrow>
      (ci_low res = NInf \<or> (\<exists>l. ci_low res = Fin l \<and> l < 0))
      \<and> (ci_high res = NInf \<or> (\<exists>h. ci_high res = Fin h \<and> h < 0)))
   \<and> (np_less (Fin 0) (ci_low res) \<and> np_less (Fin 0) (ci_high res)
        \<longrightarrow> \<not> is_significant res)"
  by (cases "ci_low res"; cases "ci_high res") (simp_all add: is_significant_def)

theorem is_significant_only_both_negative_witness:
  "np_less (Fin 0) (Fin 1) \<and> np_less (Fin 0) (Fin 3)
   \<and> \<not> is_significant \<lparr>wer_diff_bootstrap = Fin 2, ci_low = Fin 1, ci_high = Fin 3,
        std_err = Fin 1, confidence_level = 0.95, wer_diff_absolute = None\<rparr>
   \<and> is_significant \<lparr>wer_diff_bootstrap = Fin (- 2), ci_low = Fin (- 3), ci_high = Fin (- 1),
        std_err = Fin 1, confidence_level = 0.95, wer_diff_absolute = None\<rparr>"
  using is_significant_only_both_negative
          [of "\<lparr>wer_diff_bootstrap = Fin 2, ci_low = Fin 1, ci_high = Fin 3,
                std_err = Fin 1, confidence_level = 0.95, wer_diff_absolute = None\<rparr>"]
        is_significant_only_both_negative
          [of "\<lparr>wer_diff_bootstrap = Fin (- 2), ci_low = Fin (- 3), ci_high = Fin (- 1),
                std_err = Fin 1, confidence_level = 0.95, wer_diff_absolute = None\<rparr>"]
  by simp

section \<open>Configuration errors\<close>

text \<open>
  C5. Each of the four misconfigurations makes \<open>compute_significance\<close> end with an
  \<open>AssertionError\<close> and the random source as it found it, so nothing was drawn: a
  confidence level of at least one; block mode without a per-block sample size; pooled
  mode without a per-batch sample size; Gaussian mode with a level outside the table.
\<close>

theorem compute_significance_fails_fast:
  "(1 \<le> level \<longrightarrow>
      compute_significance self nb nk level blk r = (Inl AssertionError, r))
   \<and> (nk = None \<longrightarrow>
      compute_significance self nb nk level True r = (Inl AssertionError, r))
   \<and> (nb = None \<longrightarrow>
      compute_significance self nb nk level False r = (Inl AssertionError, r))
   \<and> (use_gaussian_appr self \<and> level \<notin> {0.90, 0.95, 0.99} \<longrightarrow>
      compute_significance self nb nk level blk r = (Inl AssertionError, r))"
  by (auto simp add: compute_significance_def lookup_z_score_def z_scores_def
        split: option.splits)

theorem compute_significance_fails_fast_witness:
  "(1::real) \<le> 1
   \<and> use_gaussian_appr \<lparr>total_batch = 10, data_wer = [], use_gaussian_appr = True\<rparr>
   \<and> (0.5::real) \<notin> {0.90, 0.95, 0.99}
   \<and> compute_significance \<lparr>total_batch = 10, data_wer = [], use_gaussian_appr = False\<rparr>
        (Some 5) (Some 5) 1 False \<lparr>gen = (\<lambda>i. i), drawn = 0\<rparr>
       = (Inl AssertionError, \<lparr>gen = (\<lambda>i. i), drawn = 0\<rparr>)
   \<and> compute_significance \<lparr>total_batch = 10, data_wer = [], use_gaussian_appr = False\<rparr>
        (Some 5) None 0.95 True \<lparr>gen = (\<lambda>i. i), drawn = 0\<rparr>
       = (Inl AssertionError, \<lparr>gen = (\<lambda>i. i), drawn = 0\<rparr>)
   \<and> compute_significance \<lparr>total_batch = 10, data_wer = [], use_gaussian_appr = False\<rparr>
        None (Some 5) 0.95 False \<lparr>gen = (\<lambda>i. i), drawn = 0\<rparr>
       = (Inl AssertionError, \<lparr>gen = (\<lambda>i. i), drawn = 0\<rparr>)
   \<and> compute_significance \<lparr>total_batch = 10, data_wer = [], use_gaussian_appr = True\<rparr>
        (Some 5) (Some 5) 0.5 False \<lparr>gen = (\<lambda>i. i), drawn = 0\<rparr>
       = (Inl AssertionError, \<lparr>gen = (\<lambda>i. i), drawn = 0\<rparr>)"
  using compute_significance_fails_fast
          [of 1 "\<lparr>total_batch = 10, data_wer = [], use_gaussian_appr = False\<rparr>"
              "Some 5" "Some 5" False "\<lparr>gen = (\<lambda>i. i), drawn = 0\<rparr>"]
        compute_significance_fails_fast
          [of "0.95" "\<lparr>total_batch = 10, data_wer = [], use_gaussian_appr = False\<rparr>"
              "Some 5" None True "\<lparr>gen = (\<lambda>i. i), drawn = 0\<rparr>"]
        compute_significance_fails_fast
          [of "0.95" "\<lparr>total_batch = 10, data_wer = [], use_gaussian_appr = False\<rparr>"
              None "Some 5" False "\<lparr>gen = (\<lambda>i. i), drawn = 0\<rparr>"]
        compute_significance_fails_fast
          [of "0.5" "\<lparr>total_batch = 10, data_wer = [], use_gaussian_appr = True\<rparr>"
              "Some 5" "Some 5" False "\<lparr>gen = (\<lambda>i. i), drawn = 0\<rparr>"]
  by simp

section \<open>The bootstrap drivers\<close>

text \<open>
  On a non-empty array and a non-negative sample size the resampler cannot fail, so the
  loops of both drivers have closed forms: round \<open>i\<close> reads the raw draws that follow
  those of the rounds before it.
\<close>

lemma random_sample_ok:
  assumes "data \<noteq> []" "0 \<le> k"
  shows "random_sample data k r =
    (Inr (map (\<lambda>j. data ! (gen r (drawn r + j) mod length data)) [0..<nat k]),
     r\<lparr>drawn := drawn r + nat k\<rparr>)"
  using assms by (simp add: random_sample_def and_then_def np_random_randint_def comp_def)

lemma map_upt_shift: "map f [0..<Suc n] = f 0 # map (\<lambda>i. f (Suc i)) [0..<n]"
  by (simp add: upt_conv_Cons map_Suc_upt [symmetric] del: upt_Suc)

lemma bootstap_sampling_rounds_ok:
  assumes "data \<noteq> []" "0 \<le> k"
  shows "bootstap_sampling_rounds n data k r =
    (Inr (map (\<lambda>i. wer_change
                 (map (\<lambda>j. data ! (gen r (drawn r + i * nat k + j) mod length data)) [0..<nat k]))
            [0..<n]),
     r\<lparr>drawn := drawn r + n * nat k\<rparr>)"
proof (induction n arbitrary: r)
  case 0
  show ?case by simp
next
  case (Suc n)
  have step: "random_sample data k r =
    (Inr (map (\<lambda>j. data ! (gen r (drawn r + j) mod length data)) [0..<nat k]),
     r\<lparr>drawn := drawn r + nat k\<rparr>)"
    by (rule random_sample_ok [OF assms])
  show ?case
    by (simp add: and_then_def step Suc.IH map_upt_shift add.assoc add.left_commute
          del: upt_Suc)
qed

lemma sample_blocks_ok:
  assumes "list_all (\<lambda>b. snd b \<noteq> []) blocks" "0 \<le> m"
  shows "sample_blocks blocks m r =
    (Inr (map (\<lambda>b. map (\<lambda>j. snd (blocks ! b) !
                             (gen r (drawn r + b * nat m + j) mod length (snd (blocks ! b))))
                      [0..<nat m])
            [0..<length blocks]),
     r\<lparr>drawn := drawn r + length blocks * nat m\<rparr>)"
  using assms(1)
proof (induction blocks arbitrary: r)
  case Nil
  show ?case by simp
next
  case (Cons b bs)
  have ne: "snd b \<noteq> []" and rest: "list_all (\<lambda>b. snd b \<noteq> []) bs"
    using Cons.prems by simp_all
  have step: "random_sample (snd b) m r =
    (Inr (map (\<lambda>j. snd b ! (gen r (drawn r + j) mod length (snd b))) [0..<nat m]),
     r\<lparr>drawn := drawn r + nat m\<rparr>)"
    by (rule random_sample_ok [OF ne assms(2)])
  show ?case
    by (simp add: and_then_def step Cons.IH [OF rest] map_upt_shift add.assoc
          add.left_commute del: upt_Suc)
qed

lemma block_resample_ok:
  assumes "blocks \<noteq> []" "list_all (\<lambda>b. snd b \<noteq> []) blocks" "0 \<le> m"
  shows "block_resample blocks m r =
    (Inr (concat (map (\<lambda>b. map (\<lambda>j. snd (blocks ! b) !
                             (gen r (drawn r + b * nat m + j) mod length (snd (blocks ! b))))
                      [0..<nat m])
            [0..<length blocks])),
     r\<lparr>drawn := drawn r + length blocks * nat m\<rparr>)"
proof -
  obtain b bs where "blocks = b # bs" using assms(1) by (cases blocks) auto
  then have "[0..<length blocks] \<noteq> []" by simp
  then show ?thesis
    by (simp add: block_resample_def and_then_def sample_blocks_ok [OF assms(2,3)]
          np_vstack_def split: list.splits)
qed

lemma bootstap_sampling_block_rounds_ok:
  assumes "blocks \<noteq> []" "list_all (\<lambda>b. snd b \<noteq> []) blocks" "0 \<le> m"
  shows "bootstap_sampling_block_rounds n blocks m r =
    (Inr (map (\<lambda>i. wer_change
            (concat (map (\<lambda>b. map (\<lambda>j. snd (blocks ! b) !
                   (gen r (drawn r + i * (length blocks * nat m) + b * nat m + j)
                      mod length (snd (blocks ! b))))
                      [0..<nat m])
            [0..<length blocks])))
            [0..<n]),
     r\<lparr>drawn := drawn r + n * (length blocks * nat m)\<rparr>)"
proof (induction n arbitrary: r)
  case 0
  show ?case by simp
next
  case (Suc n)
  show ?case
    by (simp add: and_then_def block_resample_ok [OF assms] Suc.IH map_upt_shift add.assoc
          add.left_commute del: upt_Suc)
qed


lemma length_concat_const:
  "length (concat (map (\<lambda>b. map (f b) [0..<m]) [0..<n])) = m * n"
  by (induction n) simp_all

text \<open>
  C6. With \<open>total_batch\<close> and the sample size non-negative, the pooled driver on a
  non-empty array and the block driver on a non-empty dictionary of non-empty blocks both
  return a distribution of length \<open>total_batch\<close>; its item \<open>i\<close> is the statistic of
  the sample that the resampler returns once the draws of the \<open>i\<close> rounds before it
  are consumed, and the driver consumes exactly the draws of its rounds.
\<close>

theorem bootstrap_drivers_distribution:
  assumes "0 \<le> total_batch self" "0 \<le> k"
  shows "(data \<noteq> [] \<longrightarrow>
           (\<exists>dist r'. bootstap_sampling self data k r = (Inr dist, r')
              \<and> int (length dist) = total_batch self
              \<and> drawn r' = drawn r + length dist * nat k
              \<and> (\<forall>i < length dist. \<exists>s r''.
                    random_sample data k (r\<lparr>drawn := drawn r + i * nat k\<rparr>) = (Inr s, r'')
                    \<and> dist ! i = wer_change s)))
       \<and> (blocks \<noteq> [] \<and> list_all (\<lambda>b. snd b \<noteq> []) blocks \<longrightarrow>
           (\<exists>dist r'. bootstap_sampling_block self blocks k r = (Inr dist, r')
              \<and> int (length dist) = total_batch self
              \<and> drawn r' = drawn r + length dist * (length blocks * nat k)
              \<and> (\<forall>i < length dist. \<exists>s r''.
                    block_resample blocks k
                      (r\<lparr>drawn := drawn r + i * (length blocks * nat k)\<rparr>) = (Inr s, r'')
                    \<and> dist ! i = wer_change s)))"
proof (intro conjI impI)
  assume ne: "data \<noteq> []"
  show "\<exists>dist r'. bootstap_sampling self data k r = (Inr dist, r')
              \<and> int (length dist) = total_batch self
              \<and> drawn r' = drawn r + length dist * nat k
              \<and> (\<forall>i < length dist. \<exists>s r''.
                    random_sample data k (r\<lparr>drawn := drawn r + i * nat k\<rparr>) = (Inr s, r'')
                    \<and> dist ! i = wer_change s)"
    using assms(1)
    by (simp add: bootstap_sampling_def bootstap_sampling_rounds_ok [OF ne assms(2)]
          random_sample_ok [OF ne assms(2)])
next
  assume "blocks \<noteq> [] \<and> list_all (\<lambda>b. snd b \<noteq> []) blocks"
  then have ne: "blocks \<noteq> []" and full: "list_all (\<lambda>b. snd b \<noteq> []) blocks"
    by simp_all
  show "\<exists>dist r'. bootstap_sampling_block self blocks k r = (Inr dist, r')
              \<and> int (length dist) = total_batch self
              \<and> drawn r' = drawn r + length dist * (length blocks * nat k)
              \<and> (\<forall>i < length dist. \<exists>s r''.
                    block_resample blocks k
                      (r\<lparr>drawn := drawn r + i * (length blocks * nat k)\<rparr>) = (Inr s, r'')
                    \<and> dist ! i = wer_change s)"
    using assms(1)
    by (simp add: bootstap_sampling_block_def
          bootstap_sampling_block_rounds_ok [OF ne full assms(2)]
          block_resample_ok [OF ne full assms(2)])
qed

theorem bootstrap_drivers_distribution_witness:
  "0 \<le> total_batch (StatisticalSignificance_init example_data 2 True)
   \<and> (0::int) \<le> 2
   \<and> concat (map snd example_data) \<noteq> []
   \<and> example_data \<noteq> []
   \<and> list_all (\<lambda>b. snd b \<noteq> []) example_data
   \<and> (\<exists>dist r'. bootstap_sampling (StatisticalSignificance_init example_data 2 True)
          (concat (map snd example_data)) 2 example_rng = (Inr dist, r')
        \<and> length dist = 2)
   \<and> (\<exists>dist r'. bootstap_sampling_block (StatisticalSignificance_init example_data 2 True)
          example_data 2 example_rng = (Inr dist, r')
        \<and> length dist = 2)"
proof -
  have h1: "0 \<le> total_batch (StatisticalSignificance_init example_data 2 True)"
    by (simp add: StatisticalSignificance_init_def)
  have h2: "(0::int) \<le> 2" by simp
  have h3: "concat (map snd example_data) \<noteq> []" by (simp add: example_data_def)
  have h4: "example_data \<noteq> []" by (simp add: example_data_def)
  have h5: "list_all (\<lambda>b. snd b \<noteq> []) example_data" by (simp add: example_data_def)
  have len: "int n = total_batch (StatisticalSignificance_init example_data 2 True)
              \<longleftrightarrow> n = 2" for n
    by (auto simp add: StatisticalSignificance_init_def)
  note both = bootstrap_drivers_distribution [OF h1 h2,
                of "concat (map snd example_data)" example_rng example_data]
  have pooled: "\<exists>dist r'. bootstap_sampling (StatisticalSignificance_init example_data 2 True)
          (concat (map snd example_data)) 2 example_rng = (Inr dist, r')
        \<and> length dist = 2"
    using both h3 len by blast
  have blockwise: "\<exists>dist r'. bootstap_sampling_block
          (StatisticalSignificance_init example_data 2 True)
          example_data 2 example_rng = (Inr dist, r')
        \<and> length dist = 2"
    using both h4 h5 len by blast
  from h1 h2 h3 h4 h5 pooled blockwise show ?thesis by blast
qed

section \<open>Block-stratified resampling\<close>

text \<open>
  C7. One round of block mode with per-block size \<open>m\<close> samples every block in turn:
  the sample of block \<open>b\<close> is what the resampler returns on that block after the draws
  of the blocks before it, has exactly \<open>m\<close> rows, all of them rows of that block; the
  stacked sample has \<open>m\<close> times the number of blocks rows, whatever the blocks' sizes.
\<close>

theorem block_resample_draws_m_per_block:
  assumes "blocks \<noteq> []" "list_all (\<lambda>b. snd b \<noteq> []) blocks" "0 \<le> m"
  shows "\<exists>segs r'. sample_blocks blocks m r = (Inr segs, r')
           \<and> block_resample blocks m r = (Inr (concat segs), r')
           \<and> length segs = length blocks
           \<and> (\<forall>b < length blocks.
                 length (segs ! b) = nat m
                 \<and> set (segs ! b) \<subseteq> set (snd (blocks ! b))
                 \<and> fst (random_sample (snd (blocks ! b)) m (r\<lparr>drawn := drawn r + b * nat m\<rparr>))
                     = Inr (segs ! b))
           \<and> length (concat segs) = nat m * length blocks
           \<and> drawn r' = drawn r + length blocks * nat m"
proof -
  have nonempty: "snd (blocks ! b) \<noteq> []" if "b < length blocks" for b
    using assms(2) that by (simp add: list_all_length)
  have inside: "snd (blocks ! b) ! (x mod length (snd (blocks ! b))) \<in> set (snd (blocks ! b))"
    if "b < length blocks" for b x
    using nonempty [OF that] by simp
  show ?thesis
    using inside nonempty
    by (auto simp add: sample_blocks_ok [OF assms(2,3)] block_resample_ok [OF assms]
          length_concat_const random_sample_ok [OF _ assms(3)])
qed



theorem block_resample_draws_m_per_block_witness:
  "example_data \<noteq> []
   \<and> list_all (\<lambda>b. snd b \<noteq> []) example_data
   \<and> (0::int) \<le> 5
   \<and> (\<exists>s r'. block_resample example_data 5 example_rng = (Inr s, r') \<and> length s = 10)"
proof -
  have h1: "example_data \<noteq> []" by (simp add: example_data_def)
  have h2: "list_all (\<lambda>b. snd b \<noteq> []) example_data" by (simp add: example_data_def)
  have h3: "(0::int) \<le> 5" by simp
  have two: "length example_data = 2" by (simp add: example_data_def)
  from block_resample_draws_m_per_block [OF h1 h2 h3, of example_rng]
  obtain segs r' where
    "block_resample example_data 5 example_rng = (Inr (concat segs), r')"
    and "length (concat segs) = nat 5 * length example_data"
    by blast
  then have "\<exists>s r'. block_resample example_data 5 example_rng = (Inr s, r') \<and> length s = 10"
    by (simp add: two)
  with h1 h2 h3 show ?thesis by blast
qed


section \<open>Finite sampling distributions\<close>

text \<open>
  When every row has a positive word count and every sample has at least one row, each
  statistic is a finite number; mean and standard error of a finite distribution with
  at least two items are finite too.
\<close>

lemma np_sum_Fin: "np_sum (map Fin vs) = Fin (sum_list vs)"
  by (induction vs) (simp_all add: np_sum_def)

lemma np_mean_Fin:
  "vs \<noteq> [] \<Longrightarrow> np_mean (map Fin vs) = Fin (sum_list vs / real (length vs))"
  by (simp add: np_mean_def np_sum_Fin)

lemma sum_list_squares_nonneg: "0 \<le> sum_list (map (\<lambda>v. (v - m) * (v - m)) (vs :: real list))"
  by (rule sum_list_nonneg) auto

lemma standard_error_Fin:
  assumes "2 \<le> length vs"
  shows "standard_error (map Fin vs) (Fin m) =
           Fin (sqrt (sum_list (map (\<lambda>v. (v - m) * (v - m)) vs) / (real (length vs) - 1)))"
proof -
  have sq: "map (\<lambda>x. np_mul (np_sub x (Fin m)) (np_sub x (Fin m))) (map Fin vs)
              = map Fin (map (\<lambda>v. (v - m) * (v - m)) vs)"
    by (simp add: np_sub_def)
  have pos: "0 < real (length vs) - 1" using assms by simp
  have "0 \<le> sum_list (map (\<lambda>v. (v - m) * (v - m)) vs) / (real (length vs) - 1)"
    using sum_list_squares_nonneg [of m vs] pos by simp
  then show ?thesis
    using pos unfolding standard_error_def sq np_sum_Fin by (simp add: Let_def not_less)
qed

lemma sum_list_pos_real:
  "xs \<noteq> [] \<Longrightarrow> (\<And>x. x \<in> set xs \<Longrightarrow> 0 < f x) \<Longrightarrow> 0 < sum_list (map f xs :: real list)"
proof (induction xs)
  case Nil
  then show ?case by simp
next
  case (Cons a xs)
  have "0 < f a" using Cons.prems(2) by simp
  moreover have "0 \<le> sum_list (map f xs)"
    by (rule sum_list_nonneg) (use Cons.prems(2) in \<open>auto intro: less_imp_le\<close>)
  ultimately show ?case by simp
qed

lemma wer_change_Fin:
  assumes "s \<noteq> []" "\<And>x. x \<in> set s \<Longrightarrow> 0 < num_words x"
  shows "\<exists>v. wer_change s = Fin v"
  using sum_list_pos_real [of s num_words, OF assms] by (simp add: wer_change_def)

lemma map_all_Fin:
  "(\<And>x. x \<in> set xs \<Longrightarrow> \<exists>v. f x = Fin v) \<Longrightarrow>
   \<exists>vs. map f xs = map Fin vs \<and> length vs = length xs"
proof (induction xs)
  case Nil
  show ?case by simp
next
  case (Cons a xs)
  obtain v where v: "f a = Fin v" using Cons.prems by auto
  obtain vs where vs: "map f xs = map Fin vs" "length vs = length xs"
    using Cons.IH Cons.prems by auto
  have "map f (a # xs) = map Fin (v # vs) \<and> length (v # vs) = length (a # xs)"
    using v vs by simp
  then show ?case by blast
qed

lemma bootstap_sampling_finite:
  assumes "data \<noteq> []" "1 \<le> k" "\<And>x. x \<in> set data \<Longrightarrow> 0 < num_words x"
  shows "\<exists>vs. bootstap_sampling self data k r =
           (Inr (map Fin vs), r\<lparr>drawn := drawn r + nat (total_batch self) * nat k\<rparr>)
         \<and> length vs = nat (total_batch self)"
proof -
  have k0: "0 \<le> k" using assms(2) by simp
  have "\<exists>v. wer_change
                 (map (\<lambda>j. data ! (gen r (drawn r + i * nat k + j) mod length data)) [0..<nat k])
          = Fin v" for i
  proof (rule wer_change_Fin)
    show "map (\<lambda>j. data ! (gen r (drawn r + i * nat k + j) mod length data)) [0..<nat k] \<noteq> []"
      using assms(2) by simp
  next
    fix x
    assume "x \<in> set (map (\<lambda>j. data ! (gen r (drawn r + i * nat k + j) mod length data))
                       [0..<nat k])"
    then have "x \<in> set data" using assms(1) by auto
    then show "0 < num_words x" by (rule assms(3))
  qed
  then obtain vs where
    "map (\<lambda>i. wer_change
                 (map (\<lambda>j. data ! (gen r (drawn r + i * nat k + j) mod length data)) [0..<nat k]))
       [0..<nat (total_batch self)] = map Fin vs"
    "length vs = length [0..<nat (total_batch self)]"
    using map_all_Fin [of "[0..<nat (total_batch self)]"
            "\<lambda>i. wer_change
                 (map (\<lambda>j. data ! (gen r (drawn r + i * nat k + j) mod length data)) [0..<nat k])"]
    by blast
  then show ?thesis
    by (intro exI [of _ vs])
       (simp add: bootstap_sampling_def bootstap_sampling_rounds_ok [OF assms(1) k0])
qed

lemma bootstap_sampling_block_finite:
  assumes "blocks \<noteq> []" "list_all (\<lambda>b. snd b \<noteq> []) blocks" "1 \<le> m"
    and "\<And>b x. b \<in> set blocks \<Longrightarrow> x \<in> set (snd b) \<Longrightarrow> 0 < num_words x"
  shows "\<exists>vs. bootstap_sampling_block self blocks m r =
           (Inr (map Fin vs),
            r\<lparr>drawn := drawn r + nat (total_batch self) * (length blocks * nat m)\<rparr>)
         \<and> length vs = nat (total_batch self)"
proof -
  have m0: "0 \<le> m" using assms(3) by simp
  have nonempty: "snd (blocks ! b) \<noteq> []" if "b < length blocks" for b
    using assms(2) that by (simp add: list_all_length)
  have "\<exists>v. wer_change
            (concat (map (\<lambda>b. map (\<lambda>j. snd (blocks ! b) !
                   (gen r (drawn r + i * (length blocks * nat m) + b * nat m + j)
                      mod length (snd (blocks ! b))))
                      [0..<nat m])
            [0..<length blocks])) = Fin v" for i
  proof (rule wer_change_Fin)
    have "0 < length blocks" using assms(1) by simp
    then show "concat (map (\<lambda>b. map (\<lambda>j. snd (blocks ! b) !
                   (gen r (drawn r + i * (length blocks * nat m) + b * nat m + j)
                      mod length (snd (blocks ! b))))
                      [0..<nat m])
            [0..<length blocks]) \<noteq> []"
      using assms(3) by (auto simp add: upt_conv_Cons simp del: upt_Suc)
  next
    fix x
    assume "x \<in> set (concat (map (\<lambda>b. map (\<lambda>j. snd (blocks ! b) !
                   (gen r (drawn r + i * (length blocks * nat m) + b * nat m + j)
                      mod length (snd (blocks ! b))))
                      [0..<nat m])
            [0..<length blocks]))"
    then obtain b j where b: "b < length blocks"
      and x: "x = snd (blocks ! b) !
                   (gen r (drawn r + i * (length blocks * nat m) + b * nat m + j)
                      mod length (snd (blocks ! b)))"
      by auto
    have "x \<in> set (snd (blocks ! b))" unfolding x using nonempty [OF b] by simp
    moreover have "blocks ! b \<in> set blocks" using b by simp
    ultimately show "0 < num_words x" by (rule assms(4) [rotated])
  qed
  then obtain vs where
    "map (\<lambda>i. wer_change
            (concat (map (\<lambda>b. map (\<lambda>j. snd (blocks ! b) !
                   (gen r (drawn r + i * (length blocks * nat m) + b * nat m + j)
                      mod length (snd (blocks ! b))))
                      [0..<nat m])
            [0..<length blocks])))
       [0..<nat (total_batch self)] = map Fin vs"
    "length vs = length [0..<nat (total_batch self)]"
    using map_all_Fin [of "[0..<nat (total_batch self)]"
            "\<lambda>i. wer_change
            (concat (map (\<lambda>b. map (\<lambda>j. snd (blocks ! b) !
                   (gen r (drawn r + i * (length blocks * nat m) + b * nat m + j)
                      mod length (snd (blocks ! b))))
                      [0..<nat m])
            [0..<length blocks]))"]
    by blast
  then show ?thesis
    by (intro exI [of _ vs])
       (simp add: bootstap_sampling_block_def
          bootstap_sampling_block_rounds_ok [OF assms(1,2) m0])
qed

section \<open>The entry point\<close>

lemma z_scores_pos: "z_scores level = Some z \<Longrightarrow> 0 < z"
  by (auto simp add: z_scores_def split: if_splits)

lemma z_scores_dom: "z_scores level = None \<longleftrightarrow> level \<notin> {0.90, 0.95, 0.99}"
  by (simp add: z_scores_def)

lemma confidence_interval_percentile:
  assumes "\<not> use_gaussian_appr self"
  shows "confidence_interval self z_score level arr m se =
           (if level < - 1 \<or> 1 < level then Inl ValueError else Inl TypeError)"
proof -
  have "(1 - (1 - level) / 2) * 100 < 0 \<longleftrightarrow> level < - 1" by argo
  moreover have "100 < (1 - (1 - level) / 2) * 100 \<longleftrightarrow> 1 < level" by argo
  ultimately show ?thesis
    using assms by (simp add: confidence_interval_def np_percentile_def Let_def)
qed

lemma compute_significance_percentile_fails:
  assumes "\<not> use_gaussian_appr self"
  shows "compute_significance self nb nk level blk r \<noteq> (Inr res, r')"
  using assms
  by (auto simp add: compute_significance_def and_then_def Let_def
        confidence_interval_percentile
        split: option.splits sum.splits prod.splits if_splits)

lemma expand_data_nonempty:
  "data \<noteq> [] \<Longrightarrow> expand_data data = Inr (concat (map snd data))"
  by (auto simp add: expand_data_def split: list.splits)

lemma expand_data_Inr:
  "expand_data data = Inr d \<Longrightarrow> d = concat (map snd data)"
  by (auto simp add: expand_data_def split: list.splits)

lemma run_bootstrap_finite:
  assumes "1 \<le> n" "data_wer self \<noteq> []"
    and "list_all (\<lambda>b. snd b \<noteq> []) (data_wer self)"
    and "list_all (\<lambda>b. list_all (\<lambda>x. 0 < num_words x) (snd b)) (data_wer self)"
  shows "\<exists>vs r'. run_bootstrap self n blk r =
            (Inr (map Fin vs,
                  if blk then None else Some (wer_change (concat (map snd (data_wer self))))), r')
          \<and> length vs = nat (total_batch self)"
proof (cases blk)
  case True
  have pos: "0 < num_words x" if "b \<in> set (data_wer self)" "x \<in> set (snd b)" for b x
    using assms(4) that by (auto simp add: list_all_iff)
  have "\<exists>vs. bootstap_sampling_block self (data_wer self) n r =
           (Inr (map Fin vs),
            r\<lparr>drawn := drawn r + nat (total_batch self) * (length (data_wer self) * nat n)\<rparr>)
         \<and> length vs = nat (total_batch self)"
    by (rule bootstap_sampling_block_finite [OF assms(2,3,1)]) (rule pos)
  then obtain vs where "bootstap_sampling_block self (data_wer self) n r =
           (Inr (map Fin vs),
            r\<lparr>drawn := drawn r + nat (total_batch self) * (length (data_wer self) * nat n)\<rparr>)"
    "length vs = nat (total_batch self)"
    by blast
  then show ?thesis using True by (auto simp add: run_bootstrap_def and_then_def)
next
  case False
  obtain b bs where split: "data_wer self = b # bs" using assms(2) by (cases "data_wer self") auto
  have ne: "concat (map snd (data_wer self)) \<noteq> []" using assms(3) split by simp
  have pos: "0 < num_words x" if "x \<in> set (concat (map snd (data_wer self)))" for x
    using assms(4) that by (auto simp add: list_all_iff)
  obtain vs where "bootstap_sampling self (concat (map snd (data_wer self))) n r =
           (Inr (map Fin vs), r\<lparr>drawn := drawn r + nat (total_batch self) * nat n\<rparr>)"
    "length vs = nat (total_batch self)"
    using bootstap_sampling_finite [OF ne assms(1) pos] by blast
  then show ?thesis
    using False by (auto simp add: run_bootstrap_def and_then_def expand_data_nonempty [OF assms(2)])
qed

lemma run_bootstrap_returns:
  assumes "0 \<le> n" "data_wer self \<noteq> []" "list_all (\<lambda>b. snd b \<noteq> []) (data_wer self)"
  shows "\<exists>dist a r'. run_bootstrap self n blk r = (Inr (dist, a), r')
           \<and> length dist = nat (total_batch self)"
proof (cases blk)
  case True
  then show ?thesis
    by (simp add: run_bootstrap_def and_then_def bootstap_sampling_block_def
          bootstap_sampling_block_rounds_ok [OF assms(2,3,1)])
next
  case False
  obtain b bs where split: "data_wer self = b # bs" using assms(2) by (cases "data_wer self") auto
  have ne: "concat (map snd (data_wer self)) \<noteq> []" using assms(3) split by simp
  from False show ?thesis
    by (simp add: run_bootstrap_def and_then_def expand_data_nonempty [OF assms(2)]
          bootstap_sampling_def bootstap_sampling_rounds_ok [OF ne assms(1)])
qed

lemma compute_significance_after_asserts:
  assumes "level < 1" "(if blk then nk else nb) = Some n"
    and "lookup_z_score self level = Inr z_score"
    and "run_bootstrap self n blk r = (Inr (arr, a), r1)"
  shows "compute_significance self nb nk level blk r =
      (case confidence_interval self z_score level arr
              (np_mean arr) (standard_error arr (np_mean arr)) of
         Inl e \<Rightarrow> (Inl e, r1)
       | Inr (low_local, high_local) \<Rightarrow>
           (Inr (WER_DiffCI_init (np_mean arr) low_local high_local
                   (standard_error arr (np_mean arr)) level a), r1))"
  using assms(1,2)
  by (simp add: compute_significance_def assms(3) and_then_def assms(4) Let_def)

lemma compute_significance_gaussian_form:
  assumes "run_bootstrap self n blk r = (Inr (map Fin vs, a), r')" "2 \<le> length vs"
    and "use_gaussian_appr self" "z_scores level = Some z" "level < 1"
    and "(if blk then nk else nb) = Some n"
  shows "compute_significance self nb nk level blk r =
    (Inr \<lparr>wer_diff_bootstrap = Fin (sum_list vs / real (length vs)),
          ci_low = Fin (sum_list vs / real (length vs)
                     - z * sqrt (sum_list (map (\<lambda>v. (v - sum_list vs / real (length vs))
                                                  * (v - sum_list vs / real (length vs))) vs)
                                  / (real (length vs) - 1))),
          ci_high = Fin (sum_list vs / real (length vs)
                     + z * sqrt (sum_list (map (\<lambda>v. (v - sum_list vs / real (length vs))
                                                  * (v - sum_list vs / real (length vs))) vs)
                                  / (real (length vs) - 1))),
          std_err = Fin (sqrt (sum_list (map (\<lambda>v. (v - sum_list vs / real (length vs))
                                                  * (v - sum_list vs / real (length vs))) vs)
                                  / (real (length vs) - 1))),
          confidence_level = level, wer_diff_absolute = a\<rparr>, r')"
proof -
  have ne: "vs \<noteq> []" using assms(2) by auto
  show ?thesis
    using assms(3-6)
    by (simp add: compute_significance_def lookup_z_score_def and_then_def assms(1)
          np_mean_Fin [OF ne] standard_error_Fin [OF assms(2)] confidence_interval_def
          WER_DiffCI_init_def np_sub_def Let_def)
qed

lemma compute_significance_unsupported_level:
  "use_gaussian_appr self \<Longrightarrow> z_scores level = None \<Longrightarrow>
   fst (compute_significance self nb nk level blk r) = Inl AssertionError"
  by (simp add: compute_significance_def lookup_z_score_def split: option.splits)

lemma compute_significance_gaussian_returns:
  assumes "2 \<le> total_batch self" "level < 1" "(if blk then nk else nb) = Some n" "1 \<le> n"
    and "data_wer self \<noteq> []" "list_all (\<lambda>b. snd b \<noteq> []) (data_wer self)"
    and "list_all (\<lambda>b. list_all (\<lambda>x. 0 < num_words x) (snd b)) (data_wer self)"
    and "use_gaussian_appr self" "z_scores level = Some z"
  shows "\<exists>res r'. compute_significance self nb nk level blk r = (Inr res, r')"
proof -
  obtain vs a r1 where run: "run_bootstrap self n blk r = (Inr (map Fin vs, a), r1)"
    and len: "length vs = nat (total_batch self)"
    using run_bootstrap_finite [OF assms(4-7), of blk r] by blast
  have two: "2 \<le> length vs" using len assms(1) by simp
  show ?thesis
    by (simp add: compute_significance_gaussian_form [OF run two assms(8,9,2,3)])
qed

lemma example_run_returns:
  "\<exists>res r'. compute_significance (StatisticalSignificance_init example_data 3 True)
               (if blk then None else Some 2) (if blk then Some 2 else None) 0.95 blk example_rng
             = (Inr res, r')"
proof -
  let ?self = "StatisticalSignificance_init example_data 3 True"
  have h1: "2 \<le> total_batch ?self" by (simp add: StatisticalSignificance_init_def)
  have h2: "(0.95::real) < 1" by simp
  have h3: "(if blk then (if blk then Some 2 else None) else (if blk then None else Some (2::int)))
              = Some 2" by simp
  have h4: "(1::int) \<le> 2" by simp
  have h5: "data_wer ?self \<noteq> []"
    by (simp add: StatisticalSignificance_init_def example_data_def)
  have h6: "list_all (\<lambda>b. snd b \<noteq> []) (data_wer ?self)"
    by (simp add: StatisticalSignificance_init_def example_data_def)
  have h7: "list_all (\<lambda>b. list_all (\<lambda>x. 0 < num_words x) (snd b)) (data_wer ?self)"
    by (simp add: StatisticalSignificance_init_def example_data_def)
  have h8: "use_gaussian_appr ?self" by (simp add: StatisticalSignificance_init_def)
  have h9: "z_scores 0.95 = Some 1.960" by (simp add: z_scores_def)
  show ?thesis
    by (rule compute_significance_gaussian_returns [OF h1 h2 h3 h4 h5 h6 h7 h8 h9])
qed

lemma standard_error_single: "standard_error [x] (np_mean [x]) = NaN"
  by (cases x) (simp_all add: standard_error_def np_mean_def np_sum_def np_sub_def)

lemma single_batch_run:
  assumes "total_batch self = 1" "level < 1" "(if blk then nk else nb) = Some n" "0 \<le> n"
    and "data_wer self \<noteq> []" "list_all (\<lambda>b. snd b \<noteq> []) (data_wer self)"
    and "use_gaussian_appr self \<Longrightarrow> level \<in> {0.90, 0.95, 0.99}"
  shows "(\<exists>x a r'. run_bootstrap self n blk r = (Inr ([x], a), r')
           \<and> real_of_int (int (length [x]) - 1) = 0
           \<and> standard_error [x] (np_mean [x]) = NaN)
     \<and> fst (compute_significance self nb nk level blk r) \<noteq> Inl AssertionError
     \<and> (use_gaussian_appr self \<longrightarrow>
          (\<exists>res r'. compute_significance self nb nk level blk r = (Inr res, r')
             \<and> std_err res = NaN))"
proof -
  obtain arr a r1 where run: "run_bootstrap self n blk r = (Inr (arr, a), r1)"
    and len: "length arr = nat (total_batch self)"
    using run_bootstrap_returns [OF assms(4-6), of blk r] by blast
  obtain x where x: "arr = [x]" using len assms(1) by (cases arr) auto
  have part1: "\<exists>x a r'. run_bootstrap self n blk r = (Inr ([x], a), r')
           \<and> real_of_int (int (length [x]) - 1) = 0
           \<and> standard_error [x] (np_mean [x]) = NaN"
    using run x by (simp add: standard_error_single)
  show ?thesis
  proof (cases "use_gaussian_appr self")
    case True
    have "z_scores level \<noteq> None" using assms(7) [OF True] z_scores_dom [of level] by blast
    then obtain z where z: "z_scores level = Some z" by blast
    have look: "lookup_z_score self level = Inr (Some z)"
      by (simp add: lookup_z_score_def True z)
    have "compute_significance self nb nk level blk r =
            (Inr (WER_DiffCI_init (np_mean arr)
                    (np_add (np_mean arr) (np_mul (Fin z) (standard_error arr (np_mean arr))))
                    (np_sub (np_mean arr) (np_mul (Fin z) (standard_error arr (np_mean arr))))
                    (standard_error arr (np_mean arr)) level a), r1)"
      by (simp add: compute_significance_after_asserts [OF assms(2,3) look run]
            confidence_interval_def True)
    then have "fst (compute_significance self nb nk level blk r) \<noteq> Inl AssertionError"
      and "\<exists>res r'. compute_significance self nb nk level blk r = (Inr res, r')
             \<and> std_err res = NaN"
      by (simp_all add: x standard_error_single WER_DiffCI_init_def)
    with part1 show ?thesis by blast
  next
    case False
    have look: "lookup_z_score self level = Inr None"
      by (simp add: lookup_z_score_def False)
    have "fst (compute_significance self nb nk level blk r) \<noteq> Inl AssertionError"
      by (simp add: compute_significance_after_asserts [OF assms(2,3) look run]
            confidence_interval_percentile [OF False])
    with part1 False show ?thesis by blast
  qed
qed

text \<open>
  C2. In empirical-percentile mode the interval should be the pair of the \<open>\<alpha>\<close> and
  \<open>1 - \<alpha>\<close> percentiles of the distribution. The call of \<open>np.percentile\<close> passes
  \<open>interval*100\<close> as the axis instead: on the example data, with two rounds of two
  samples at level 0.95, the run resamples (four draws) and then ends in a
  \<open>TypeError\<close>; by \<open>compute_significance_percentile_fails\<close> no run of this mode
  returns a result.
\<close>

theorem percentile_mode_raises:
  "compute_significance (StatisticalSignificance_init example_data 2 False)
     (Some 2) None 0.95 False example_rng
   = (Inl TypeError, example_rng\<lparr>drawn := 4\<rparr>)"
  by (simp add: compute_significance_def lookup_z_score_def run_bootstrap_def expand_data_def
        example_data_def bootstap_sampling_def and_then_def random_sample_def
        np_random_randint_def confidence_interval_percentile StatisticalSignificance_init_def
        example_rng_def numeral_2_eq_2)

text \<open>
  C3. For a run with at least two rounds, a level below one, a sample size of at least
  one for the chosen mode, and a non-empty dictionary of non-empty blocks whose rows have
  positive word counts: in Gaussian mode with a level of the table a result is returned,
  and every result that is returned, in either mode, has \<open>ci_low \<le> ci_high\<close>. The
  Gaussian branch computes \<open>(mean + z se, mean - z se)\<close> and the constructor takes its
  second argument as \<open>ci_high\<close> and its third as \<open>ci_low\<close>; the percentile branch
  returns no result.
\<close>

theorem ci_low_le_ci_high:
  assumes "2 \<le> total_batch self" "level < 1" "(if blk then nk else nb) = Some n" "1 \<le> n"
    and "data_wer self \<noteq> []" "list_all (\<lambda>b. snd b \<noteq> []) (data_wer self)"
    and "list_all (\<lambda>b. list_all (\<lambda>x. 0 < num_words x) (snd b)) (data_wer self)"
  shows "(use_gaussian_appr self \<and> level \<in> {0.90, 0.95, 0.99} \<longrightarrow>
           (\<exists>res r'. compute_significance self nb nk level blk r = (Inr res, r')
              \<and> np_less_equal (ci_low res) (ci_high res)))
       \<and> (\<forall>res r'. compute_significance self nb nk level blk r = (Inr res, r')
              \<longrightarrow> np_less_equal (ci_low res) (ci_high res))"
proof -
  obtain vs a r1 where run: "run_bootstrap self n blk r = (Inr (map Fin vs, a), r1)"
    and len: "length vs = nat (total_batch self)"
    using run_bootstrap_finite [OF assms(4-7), of blk r] by blast
  have two: "2 \<le> length vs" using len assms(1) by simp
  have ordered: "\<exists>res r'. compute_significance self nb nk level blk r = (Inr res, r')
              \<and> np_less_equal (ci_low res) (ci_high res)
              \<and> (\<forall>res' r''. compute_significance self nb nk level blk r = (Inr res', r'')
                    \<longrightarrow> np_less_equal (ci_low res') (ci_high res'))"
    if g: "use_gaussian_appr self" and z: "z_scores level = Some z" for z
  proof -
    have "0 \<le> z * sqrt (sum_list (map (\<lambda>v. (v - sum_list vs / real (length vs))
                                                  * (v - sum_list vs / real (length vs))) vs)
                                  / (real (length vs) - 1))"
      using z_scores_pos [OF z] two sum_list_squares_nonneg [of "sum_list vs / real (length vs)" vs]
      by simp
    then show ?thesis
      by (simp add: compute_significance_gaussian_form [OF run two g z assms(2,3)])
  qed
  have first: "\<exists>res r'. compute_significance self nb nk level blk r = (Inr res, r')
              \<and> np_less_equal (ci_low res) (ci_high res)"
    if "use_gaussian_appr self \<and> level \<in> {0.90, 0.95, 0.99}"
  proof -
    have "z_scores level \<noteq> None" using that z_scores_dom [of level] by blast
    then obtain z where "z_scores level = Some z" by blast
    then show ?thesis using ordered that by blast
  qed
  have second: "np_less_equal (ci_low res) (ci_high res)"
    if ret: "compute_significance self nb nk level blk r = (Inr res, r')" for res r'
  proof -
    have g: "use_gaussian_appr self"
      using compute_significance_percentile_fails [of self nb nk level blk r res r'] ret by blast
    have "z_scores level \<noteq> None"
      using compute_significance_unsupported_level [OF g, of level nb nk blk r] ret by auto
    then obtain z where "z_scores level = Some z" by auto
    then show ?thesis using ordered [OF g] ret by blast
  qed
  from first second show ?thesis by blast
qed

theorem ci_low_le_ci_high_witness:
  "2 \<le> total_batch (StatisticalSignificance_init example_data 3 True)
   \<and> (0.95::real) < 1
   \<and> (if False then None else Some (2::int)) = Some 2
   \<and> (1::int) \<le> 2
   \<and> data_wer (StatisticalSignificance_init example_data 3 True) \<noteq> []
   \<and> list_all (\<lambda>b. snd b \<noteq> []) (data_wer (StatisticalSignificance_init example_data 3 True))
   \<and> list_all (\<lambda>b. list_all (\<lambda>x. 0 < num_words x) (snd b))
         (data_wer (StatisticalSignificance_init example_data 3 True))
   \<and> use_gaussian_appr (StatisticalSignificance_init example_data 3 True)
   \<and> (0.95::real) \<in> {0.90, 0.95, 0.99}
   \<and> (\<exists>res r'. compute_significance (StatisticalSignificance_init example_data 3 True)
                   (Some 2) None 0.95 False example_rng = (Inr res, r')
          \<and> np_less_equal (ci_low res) (ci_high res))"
proof -
  let ?self = "StatisticalSignificance_init example_data 3 True"
  have h1: "2 \<le> total_batch ?self" by (simp add: StatisticalSignificance_init_def)
  have h2: "(0.95::real) < 1" by simp
  have h3: "(if False then None else Some (2::int)) = Some 2" by simp
  have h4: "(1::int) \<le> 2" by simp
  have h5: "data_wer ?self \<noteq> []"
    by (simp add: StatisticalSignificance_init_def example_data_def)
  have h6: "list_all (\<lambda>b. snd b \<noteq> []) (data_wer ?self)"
    by (simp add: StatisticalSignificance_init_def example_data_def)
  have h7: "list_all (\<lambda>b. list_all (\<lambda>x. 0 < num_words x) (snd b)) (data_wer ?self)"
    by (simp add: StatisticalSignificance_init_def example_data_def)
  have h8: "use_gaussian_appr ?self" by (simp add: StatisticalSignificance_init_def)
  have h9: "(0.95::real) \<in> {0.90, 0.95, 0.99}" by simp
  from ci_low_le_ci_high [OF h1 h2 h3 h4 h5 h6 h7, of example_rng] h8 h9
  have "\<exists>res r'. compute_significance ?self (Some 2) None 0.95 False example_rng = (Inr res, r')
          \<and> np_less_equal (ci_low res) (ci_high res)"
    by blast
  with h1 h2 h3 h4 h5 h6 h7 h8 h9 show ?thesis by blast
qed

text \<open>
  C9. Whenever \<open>compute_significance\<close> returns a result, its \<open>wer_diff_absolute\<close> is
  \<open>None\<close> in block mode and, in pooled mode, the statistic of all blocks' rows
  concatenated in the dictionary's order.
\<close>

theorem wer_diff_absolute_only_pooled:
  "compute_significance self nb nk level blk r = (Inr res, r') \<Longrightarrow>
   wer_diff_absolute res =
     (if blk then None else Some (wer_change (concat (map snd (data_wer self)))))"
  by (auto simp add: compute_significance_def run_bootstrap_def and_then_def Let_def
        WER_DiffCI_init_def
        dest: expand_data_Inr split: option.splits sum.splits prod.splits if_splits)

theorem wer_diff_absolute_only_pooled_witness:
  "(\<exists>res r'. compute_significance (StatisticalSignificance_init example_data 3 True)
               (Some 2) None 0.95 False example_rng = (Inr res, r')
       \<and> wer_diff_absolute res = Some (Fin (- 0.15)))
   \<and> (\<exists>res r'. compute_significance (StatisticalSignificance_init example_data 3 True)
               None (Some 2) 0.95 True example_rng = (Inr res, r')
       \<and> wer_diff_absolute res = None)"
proof -
  let ?self = "StatisticalSignificance_init example_data 3 True"
  have stat: "wer_change (concat (map snd (data_wer ?self))) = Fin (- 0.15)"
    by (simp add: StatisticalSignificance_init_def example_data_def wer_change_def)
  obtain res1 r1 where
    run1: "compute_significance ?self (Some 2) None 0.95 False example_rng = (Inr res1, r1)"
    using example_run_returns [of False] by auto
  obtain res2 r2 where
    run2: "compute_significance ?self None (Some 2) 0.95 True example_rng = (Inr res2, r2)"
    using example_run_returns [of True] by auto
  have "wer_diff_absolute res1 = Some (Fin (- 0.15))"
    using wer_diff_absolute_only_pooled [OF run1] stat by simp
  moreover have "wer_diff_absolute res2 = None"
    using wer_diff_absolute_only_pooled [OF run2] by simp
  ultimately show ?thesis using run1 run2 by blast
qed

text \<open>
  C10. The constructor stores \<open>total_batch = 1\<close> unchecked. A run on it that passes
  the three assertions, on a non-empty dictionary of non-empty blocks with a
  non-negative sample size, gets a distribution of one item; \<open>standard_error\<close> then
  divides by \<open>len - 1 = 0\<close> and yields \<open>nan\<close>. The run never ends in an
  \<open>AssertionError\<close>, and in Gaussian mode it returns a result whose \<open>std_err\<close> is
  \<open>nan\<close>.
\<close>

theorem total_batch_one_divides_by_zero:
  assumes "level < 1" "(if blk then nk else nb) = Some n" "0 \<le> n"
    and "parsed \<noteq> []" "list_all (\<lambda>b. snd b \<noteq> []) parsed"
    and "gaussian \<Longrightarrow> level \<in> {0.90, 0.95, 0.99}"
  shows "total_batch (StatisticalSignificance_init parsed 1 gaussian) = 1
     \<and> (\<exists>x a r'. run_bootstrap (StatisticalSignificance_init parsed 1 gaussian) n blk r
                    = (Inr ([x], a), r')
           \<and> real_of_int (int (length [x]) - 1) = 0
           \<and> standard_error [x] (np_mean [x]) = NaN)
     \<and> fst (compute_significance (StatisticalSignificance_init parsed 1 gaussian)
              nb nk level blk r) \<noteq> Inl AssertionError
     \<and> (gaussian \<longrightarrow>
          (\<exists>res r'. compute_significance (StatisticalSignificance_init parsed 1 gaussian)
                       nb nk level blk r = (Inr res, r')
             \<and> std_err res = NaN))"
proof -
  let ?self = "StatisticalSignificance_init parsed 1 gaussian"
  have one: "total_batch ?self = 1"
    and d: "data_wer ?self \<noteq> []" "list_all (\<lambda>b. snd b \<noteq> []) (data_wer ?self)"
    and g: "use_gaussian_appr ?self = gaussian"
    using assms(4,5) by (simp_all add: StatisticalSignificance_init_def)
  have lv: "use_gaussian_appr ?self \<Longrightarrow> level \<in> {0.90, 0.95, 0.99}"
    using assms(6) unfolding g .
  from single_batch_run [OF one assms(1-3) d lv, where r = r] one
  show ?thesis unfolding g by blast
qed

theorem total_batch_one_divides_by_zero_witness:
  "(0.95::real) < 1
   \<and> (if False then None else Some (2::int)) = Some 2
   \<and> (0::int) \<le> 2
   \<and> example_data \<noteq> []
   \<and> list_all (\<lambda>b. snd b \<noteq> []) example_data
   \<and> (0.95::real) \<in> {0.90, 0.95, 0.99}
   \<and> fst (compute_significance (StatisticalSignificance_init example_data 1 True)
            (Some 2) None 0.95 False example_rng) \<noteq> Inl AssertionError
   \<and> (\<exists>res r'. compute_significance (StatisticalSignificance_init example_data 1 True)
                  (Some 2) None 0.95 False example_rng = (Inr res, r')
         \<and> std_err res = NaN)"
proof -
  have h1: "(0.95::real) < 1" by simp
  have h2: "(if False then None else Some (2::int)) = Some 2" by simp
  have h3: "(0::int) \<le> 2" by simp
  have h4: "example_data \<noteq> []" by (simp add: example_data_def)
  have h5: "list_all (\<lambda>b. snd b \<noteq> []) example_data" by (simp add: example_data_def)
  have h6: "(0.95::real) \<in> {0.90, 0.95, 0.99}" by simp
  from total_batch_one_divides_by_zero [OF h1 h2 h3 h4 h5 h6, of True example_rng]
  have "fst (compute_significance (StatisticalSignificance_init example_data 1 True)
            (Some 2) None 0.95 False example_rng) \<noteq> Inl AssertionError
   \<and> (\<exists>res r'. compute_significance (StatisticalSignificance_init example_data 1 True)
                  (Some 2) None 0.95 False example_rng = (Inr res, r')
         \<and> std_err res = NaN)"
    by blast
  with h1 h2 h3 h4 h5 h6 show ?thesis by blast
qed

end
